theory Spec2Isabelle
  imports Main "HOL-Library.Word"
begin

unbundle bit_operations_syntax

section \<open>Network transport layer (transport.c): data model\<close>

text \<open>
  The embedding follows \<^verbatim>\<open>transport.c\<close>. C \<^verbatim>\<open>int\<close> values (statuses, byte
  counts, positions) are \<^typ>\<open>int\<close>: the code only adds and subtracts counts that
  are bounded by a PDU length of at most 16 bits plus 4, far from the 32-bit range.
  A \<^verbatim>\<open>uint8\<close> is an \<^typ>\<open>8 word\<close>, a \<^verbatim>\<open>uint16\<close> a \<^typ>\<open>16 word\<close>.
\<close>

type_synonym byte = "8 word"

datatype TRANSPORT_LAYER =
  TRANSPORT_LAYER_TCP | TRANSPORT_LAYER_TLS | TRANSPORT_LAYER_CLOSED

text \<open>
  A \<^verbatim>\<open>STREAM\<close>: the storage \<^verbatim>\<open>data\<close> points to (an array indexed from 0), the
  offset \<open>pos\<close> of the cursor \<^verbatim>\<open>p\<close> from \<^verbatim>\<open>data\<close>, and the size \<open>ssize\<close> of the
  storage (the field \<^verbatim>\<open>size\<close>). The array of the model has no end; the storage of the
  stream ends at \<open>ssize\<close>, and the one place where the code can write past it, the
  read of an endpoint into the stream, checks it (see \<open>layer_read\<close>).
\<close>

record stream =
  data :: "int \<Rightarrow> byte"
  pos :: int
  ssize :: int

subsection \<open>Stream accessors\<close>

text \<open>
  Modelled from the spec: the stream macros of \<^verbatim>\<open>freerdp/utils/stream.h\<close>, which is
  not among the sources. The spec's words: the buffer position "equals the count of
  received-but-undispatched bytes" (\<open>stream_get_pos\<close>, \<open>stream_get_length\<close>), "advance
  the buffer's write position by the number of bytes just obtained" (\<open>stream_seek\<close>),
  "seal the buffer at the PDU length" (\<open>stream_seal\<close>), "reset the buffer position to 0"
  (\<open>stream_set_pos\<close>), "grow the receive buffer to at least 32 KiB of headroom"
  (\<open>stream_check_size\<close>), "allocates all three buffers at 16 KiB" (\<open>stream_new\<close>).
\<close>

definition stream_new :: "int \<Rightarrow> stream" where
  "stream_new n = \<lparr>data = (\<lambda>_. 0), pos = 0, ssize = n\<rparr>"

definition stream_get_length :: "stream \<Rightarrow> int" where
  "stream_get_length s = pos s"

definition stream_get_pos :: "stream \<Rightarrow> int" where
  "stream_get_pos s = pos s"

definition stream_set_pos :: "stream \<Rightarrow> int \<Rightarrow> stream" where
  "stream_set_pos s m = s\<lparr>pos := m\<rparr>"

definition stream_seek :: "stream \<Rightarrow> int \<Rightarrow> stream" where
  "stream_seek s n = s\<lparr>pos := pos s + n\<rparr>"

definition stream_seal :: "stream \<Rightarrow> stream" where
  "stream_seal s = s\<lparr>ssize := pos s\<rparr>"

definition stream_check_size :: "stream \<Rightarrow> int \<Rightarrow> stream" where
  "stream_check_size s n = (if pos s + n > ssize s then s\<lparr>ssize := pos s + n\<rparr> else s)"

text \<open>The bytes \<open>off, off + 1, \<dots>, off + n - 1\<close> of a stream's storage.\<close>

definition stream_slice :: "stream \<Rightarrow> int \<Rightarrow> int \<Rightarrow> byte list" where
  "stream_slice s off n = map (\<lambda>i. data s (off + int i)) [0..<nat n]"

text \<open>What a reader of a sealed stream sees: the bytes from 0 up to its size.\<close>

definition stream_contents :: "stream \<Rightarrow> byte list" where
  "stream_contents s = stream_slice s 0 (ssize s)"

text \<open>Storing the bytes \<open>bs\<close> at offset \<open>off\<close> (what an endpoint read does to its buffer).\<close>

definition stream_store :: "stream \<Rightarrow> int \<Rightarrow> byte list \<Rightarrow> stream" where
  "stream_store s off bs =
     s\<lparr>data := (\<lambda>i. if off \<le> i \<and> i < off + int (length bs) then bs ! nat (i - off)
                      else data s i)\<rparr>"

section \<open>The framing recognizer of transport_read\<close>

text \<open>
  Lines 241--281 of \<^verbatim>\<open>transport_read\<close>: the declared PDU length \<^verbatim>\<open>pdu_bytes\<close>
  computed from the first four bytes, together with what the block prints. The
  \<^verbatim>\<open>uint8\<close> operands are promoted to \<^verbatim>\<open>int\<close> before \<^verbatim>\<open><<\<close>, \<^verbatim>\<open>|\<close> and \<^verbatim>\<open>&\<close>.
\<close>

definition transport_read_pdu_bytes :: "(int \<Rightarrow> byte) \<Rightarrow> int \<times> string list" where
  "transport_read_pdu_bytes d =
     (if d 0 = 0x03 then
        (push_bit 8 (uint (d 2)) OR uint (d 3), [])
      else if d 0 = 0x30 then
        (if uint (d 1) AND 0x80 \<noteq> 0 then
           (if uint (d 1) AND NOT 0x80 = 1 then (uint (d 2) + 3, [])
            else if uint (d 1) AND NOT 0x80 = 2 then
              ((push_bit 8 (uint (d 2)) OR uint (d 3)) + 4, [])
            else (0, [''Error reading TSRequest!'']))
         else (uint (d 1) + 2, []))
      else
        (if uint (d 1) AND 0x80 \<noteq> 0 then
           (push_bit 8 (uint (d 1) AND 0x7f) OR uint (d 2), [])
         else (uint (d 1), [])))"

text \<open>A buffer given by its first bytes (the rest is zero).\<close>

definition bytes_at :: "byte list \<Rightarrow> int \<Rightarrow> byte" where
  "bytes_at bs i = (if 0 \<le> i \<and> i < int (length bs) then bs ! nat i else 0)"

section \<open>Byte endpoints\<close>

text \<open>
  Modelled from the spec: the TCP and TLS endpoints (\<^verbatim>\<open>tcp_read\<close>, \<^verbatim>\<open>tcp_write\<close>,
  \<^verbatim>\<open>tls_read\<close>, \<^verbatim>\<open>tls_write\<close>, \<^verbatim>\<open>tls_new\<close>, \<^verbatim>\<open>tls_connect\<close>), which are
  not among the sources. The spec's endpoint contract: \<open>read(buf, n)\<close> and
  \<open>write(buf, n)\<close> return "positive bytes, 0 on would-block, negative on error".

  An endpoint carries the environment's script. \<open>rx\<close> lists what successive read
  calls find: \<open>Data bs\<close> are bytes that have arrived (a read of \<open>n\<close> takes at most
  \<open>n\<close> of them and leaves the rest for the next call; \<open>Data []\<close> is a would-block),
  \<open>Err e\<close> is an error. When \<open>rx\<close> is exhausted nothing arrives any more and every
  read would block. \<open>wx\<close> lists what successive write calls answer: a negative entry
  is an error, an entry \<open>r \<ge> 0\<close> accepts at most \<open>r\<close> bytes; when \<open>wx\<close> is exhausted
  every write is accepted whole. \<open>rcalls\<close> and \<open>wcalls\<close> count the calls made, \<open>sent\<close>
  collects the bytes accepted, and \<open>handshake\<close> is the outcome \<^verbatim>\<open>tls_connect\<close> will
  report.
\<close>

datatype rd = Data "byte list" | Err int

record endpoint =
  sockfd :: int
  rx :: "rd list"
  wx :: "int list"
  sent :: "byte list"
  rcalls :: nat
  wcalls :: nat
  handshake :: bool

definition endpoint_read :: "endpoint \<Rightarrow> int \<Rightarrow> int \<times> byte list \<times> endpoint" where
  "endpoint_read e n =
     (case rx e of
        [] \<Rightarrow> (0, [], e\<lparr>rcalls := Suc (rcalls e)\<rparr>)
      | Err c # r \<Rightarrow> ((if c < 0 then c else - 1), [], e\<lparr>rx := r, rcalls := Suc (rcalls e)\<rparr>)
      | Data bs # r \<Rightarrow>
          (int (length (take (nat n) bs)), take (nat n) bs,
           e\<lparr>rx := (if length bs \<le> nat n then r else Data (drop (nat n) bs) # r),
             rcalls := Suc (rcalls e)\<rparr>))"

definition endpoint_write :: "endpoint \<Rightarrow> byte list \<Rightarrow> int \<times> endpoint" where
  "endpoint_write e bs =
     (case wx e of
        [] \<Rightarrow> (int (length bs), e\<lparr>sent := sent e @ bs, wcalls := Suc (wcalls e)\<rparr>)
      | r # rs \<Rightarrow>
          (if r < 0 then (r, e\<lparr>wx := rs, wcalls := Suc (wcalls e)\<rparr>)
           else (int (length (take (nat r) bs)),
                 e\<lparr>wx := rs, sent := sent e @ take (nat r) bs, wcalls := Suc (wcalls e)\<rparr>)))"

definition tls_connect :: "endpoint \<Rightarrow> bool" where
  "tls_connect e = handshake e"

section \<open>The transport\<close>

text \<open>
  \<^verbatim>\<open>rdpTransport\<close>, with the fields the functions below use. \<open>tls\<close> is \<open>None\<close> for
  the C null pointer. \<open>stdout\<close> is the text the functions \<^verbatim>\<open>printf\<close> (without the
  trailing newlines). The callback \<^verbatim>\<open>recv_callback\<close> is a parameter of
  \<open>transport_check_fds\<close>: a function that receives the transport (its \<open>recv_buffer\<close>
  is the sealed PDU) and returns its verdict with the transport as it left it.
\<close>

record transport =
  layer :: TRANSPORT_LAYER
  tcp :: endpoint
  tls :: "endpoint option"
  blocking :: bool
  usleep_interval :: int
  recv_buffer :: stream
  recv_stream :: stream
  send_stream :: stream
  level :: int
  stdout :: "string list"

definition BUFFER_SIZE :: int where
  "BUFFER_SIZE = 16384"

text \<open>\<^verbatim>\<open>transport_new\<close>; the endpoint \<^verbatim>\<open>tcp_new\<close> returns is the argument.\<close>

definition transport_new :: "endpoint \<Rightarrow> transport" where
  "transport_new tcp_new =
     \<lparr>layer = TRANSPORT_LAYER_TCP, tcp = tcp_new, tls = None, blocking = True,
      usleep_interval = 100, recv_buffer = stream_new BUFFER_SIZE,
      recv_stream = stream_new BUFFER_SIZE, send_stream = stream_new BUFFER_SIZE,
      level = 0, stdout = []\<rparr>"

subsection \<open>transport_connect_tls\<close>

text \<open>
  The endpoint \<^verbatim>\<open>tls_new\<close> would return is the first argument. The result is the
  returned \<^verbatim>\<open>tbool\<close> and the transport afterwards.
\<close>

definition transport_connect_tls :: "endpoint \<Rightarrow> transport \<Rightarrow> bool \<times> transport" where
  "transport_connect_tls tls_new t =
     (let t1 = (if tls t = None then t\<lparr>tls := Some tls_new\<rparr> else t);
          t2 = t1\<lparr>layer := TRANSPORT_LAYER_TLS\<rparr>;
          t3 = t2\<lparr>tls := map_option (\<lambda>e. e\<lparr>sockfd := sockfd (tcp t2)\<rparr>) (tls t2)\<rparr>
      in if (case tls t3 of None \<Rightarrow> False | Some e \<Rightarrow> tls_connect e) = False
         then (False, t3)
         else (True, t3))"

subsection \<open>transport_read_layer\<close>

text \<open>
  The read of one loop iteration (lines 181--184): from the TLS endpoint, from the TCP
  endpoint, or from neither, which leaves \<^verbatim>\<open>status\<close> as it was. The bytes read are
  stored at \<^verbatim>\<open>data + read\<close>. Two executions have no defined result, and the
  model gives \<open>None\<close> for them: layer TLS with a null \<open>tls\<close> dereferences a null
  pointer, and bytes stored past the size of the stream are written outside its
  storage.
\<close>

definition layer_read ::
  "transport \<Rightarrow> stream \<Rightarrow> int \<Rightarrow> int \<Rightarrow> int \<Rightarrow> (int \<times> transport \<times> stream) option" where
  "layer_read t s off n status =
     (if layer t = TRANSPORT_LAYER_TLS then
        (case tls t of
           None \<Rightarrow> None
         | Some e \<Rightarrow>
             (case endpoint_read e n of
                (st, bs, e') \<Rightarrow>
                  if ssize s < off + int (length bs) then None
                  else Some (st, t\<lparr>tls := Some e'\<rparr>, stream_store s off bs)))
      else if layer t = TRANSPORT_LAYER_TCP then
        (case endpoint_read (tcp t) n of
           (st, bs, e') \<Rightarrow>
             if ssize s < off + int (length bs) then None
             else Some (st, t\<lparr>tcp := e'\<rparr>, stream_store s off bs))
      else Some (status, t, s))"

text \<open>
  The loop of \<^verbatim>\<open>transport_read_layer\<close>, with its variables \<^verbatim>\<open>read\<close> and \<^verbatim>\<open>status\<close>
  as arguments; \<open>off\<close> is the offset of the pointer \<^verbatim>\<open>data\<close> in the stream \<open>s\<close>. In
  blocking mode the loop runs until \<^verbatim>\<open>bytes\<close> bytes are read or an error occurs: when
  the endpoint never delivers them it does not return (\<open>None\<close>). The waits
  (\<^verbatim>\<open>tcp_can_recv\<close>, \<^verbatim>\<open>freerdp_usleep\<close>) change no state of the model.
\<close>

partial_function (option) transport_read_layer_loop ::
  "transport \<Rightarrow> stream \<Rightarrow> int \<Rightarrow> int \<Rightarrow> int \<Rightarrow> int \<Rightarrow> (int \<times> transport \<times> stream) option" where
  "transport_read_layer_loop t s off bytes rd status =
     (if rd < bytes then
        (case layer_read t s (off + rd) (bytes - rd) status of
           None \<Rightarrow> None
         | Some (status', t', s') \<Rightarrow>
             if blocking t' = False then Some (status', t', s')
             else if status' < 0 then Some (status', t', s')
             else transport_read_layer_loop t' s' off bytes (rd + status') status')
      else Some (rd, t, s))"

definition transport_read_layer ::
  "transport \<Rightarrow> stream \<Rightarrow> int \<Rightarrow> int \<Rightarrow> (int \<times> transport \<times> stream) option" where
  "transport_read_layer t s off bytes = transport_read_layer_loop t s off bytes 0 (- 1)"

subsection \<open>transport_read\<close>

text \<open>Lines 241--300: the framing recognizer, the body read and the returned count.\<close>

definition transport_read_body ::
  "transport \<Rightarrow> stream \<Rightarrow> int \<Rightarrow> int \<Rightarrow> (int \<times> transport \<times> stream) option" where
  "transport_read_body t s stream_bytes transport_status =
     (case transport_read_pdu_bytes (data s) of
        (pdu_bytes, msgs) \<Rightarrow>
          (case transport_read_layer (t\<lparr>stdout := stdout t @ msgs\<rparr>) s stream_bytes
                  (pdu_bytes - stream_bytes) of
             None \<Rightarrow> None
           | Some (status, t', s') \<Rightarrow>
               if status < 0 then Some (status, t', s')
               else Some (transport_status + status, t', s')))"

definition transport_read :: "transport \<Rightarrow> stream \<Rightarrow> (int \<times> transport \<times> stream) option" where
  "transport_read t s =
     (let stream_bytes = stream_get_length s in
      if stream_bytes < 4 then
        (case transport_read_layer t s stream_bytes (4 - stream_bytes) of
           None \<Rightarrow> None
         | Some (status, t', s') \<Rightarrow>
             if status < 0 then Some (status, t', s')
             else if status + stream_bytes < 4 then Some (0 + status, t', s')
             else transport_read_body t' s' (stream_bytes + status) (0 + status))
      else transport_read_body t s stream_bytes 0)"

subsection \<open>transport_read_nonblocking\<close>

text \<open>
  \<^verbatim>\<open>transport_read\<close> is called on the transport's own \<open>recv_buffer\<close>; the stream it
  returns is stored back into the transport.
\<close>

definition transport_read_nonblocking :: "transport \<Rightarrow> (int \<times> transport) option" where
  "transport_read_nonblocking t =
     (let b = stream_check_size (recv_buffer t) (32 * 1024) in
      case transport_read (t\<lparr>recv_buffer := b\<rparr>) b of
        None \<Rightarrow> None
      | Some (status, t', s') \<Rightarrow>
          if status \<le> 0 then Some (status, t'\<lparr>recv_buffer := s'\<rparr>)
          else Some (status, t'\<lparr>recv_buffer := stream_seek s' status\<rparr>))"

subsection \<open>transport_write\<close>

text \<open>
  The write of one loop iteration (lines 336--339): \<^verbatim>\<open>length\<close> bytes from the
  stream's cursor go to the endpoint of the layer; with neither layer \<^verbatim>\<open>status\<close> stays
  as it was.
\<close>

definition layer_write ::
  "transport \<Rightarrow> stream \<Rightarrow> int \<Rightarrow> int \<Rightarrow> (int \<times> transport) option" where
  "layer_write t s len status =
     (if layer t = TRANSPORT_LAYER_TLS then
        (case tls t of
           None \<Rightarrow> None
         | Some e \<Rightarrow>
             (case endpoint_write e (stream_slice s (pos s) len) of
                (st, e') \<Rightarrow> Some (st, t\<lparr>tls := Some e'\<rparr>)))
      else if layer t = TRANSPORT_LAYER_TCP then
        (case endpoint_write (tcp t) (stream_slice s (pos s) len) of
           (st, e') \<Rightarrow> Some (st, t\<lparr>tcp := e'\<rparr>))
      else Some (status, t))"

text \<open>
  The loop of \<^verbatim>\<open>transport_write\<close>. An endpoint that accepts nothing for ever keeps
  it running: the call does not return (\<open>None\<close>).
\<close>

partial_function (option) transport_write_loop ::
  "transport \<Rightarrow> stream \<Rightarrow> int \<Rightarrow> int \<Rightarrow> (int \<times> transport \<times> stream) option" where
  "transport_write_loop t s len status =
     (if len > 0 then
        (case layer_write t s len status of
           None \<Rightarrow> None
         | Some (status', t') \<Rightarrow>
             if status' < 0 then Some (status', t', s)
             else transport_write_loop t' (stream_seek s status') (len - status') status')
      else Some (status, t, s))"

definition transport_write :: "transport \<Rightarrow> stream \<Rightarrow> (int \<times> transport \<times> stream) option" where
  "transport_write t s =
     (let len = stream_get_length s;
          s0 = stream_set_pos s 0
      in case transport_write_loop t s0 len (- 1) of
           None \<Rightarrow> None
         | Some (status, t', s') \<Rightarrow>
             if status < 0 then Some (status, t'\<lparr>layer := TRANSPORT_LAYER_CLOSED\<rparr>, s')
             else Some (status, t', s'))"

subsection \<open>Header codecs\<close>

text \<open>
  Modelled from the spec: \<^verbatim>\<open>tpkt_verify_header\<close>, \<^verbatim>\<open>tpkt_read_header\<close>,
  \<^verbatim>\<open>fastpath_header_length\<close> and \<^verbatim>\<open>fastpath_read_header\<close> (\<^verbatim>\<open>tpkt.c\<close>,
  \<^verbatim>\<open>fastpath.c\<close>), which are not among the sources. The spec's words: first byte
  \<open>0x03\<close> is TPKT, with a "big-endian 16-bit length at bytes [2..4]"; Fast-Path has a
  "2- or 3-byte header", "\<open>XX LL\<close>: total length \<open>LL\<close>, where bit 7 of \<open>LL\<close> is 0" and
  "\<open>XX LL_hi LL_lo\<close>: total length \<open>((LL_hi & 0x7f) << 8) | LL_lo\<close>, with bit 7 of
  \<open>LL_hi\<close> set". They read at the stream's cursor, which \<open>transport_check_fds\<close> has
  set to 0; the spec does not say where they leave the cursor, and the model does
  not move it.
\<close>

definition tpkt_verify_header :: "stream \<Rightarrow> bool" where
  "tpkt_verify_header s = (data s (pos s) = 0x03)"

definition tpkt_read_header :: "stream \<Rightarrow> 16 word" where
  "tpkt_read_header s =
     push_bit 8 (ucast (data s (pos s + 2))) OR ucast (data s (pos s + 3))"

definition fastpath_header_length :: "stream \<Rightarrow> 16 word" where
  "fastpath_header_length s = (if data s (pos s + 1) AND 0x80 \<noteq> 0 then 3 else 2)"

definition fastpath_read_header :: "stream \<Rightarrow> 16 word" where
  "fastpath_read_header s =
     (if data s (pos s + 1) AND 0x80 \<noteq> 0
      then push_bit 8 (ucast (data s (pos s + 1) AND 0x7f)) OR ucast (data s (pos s + 2))
      else ucast (data s (pos s + 1)))"

subsection \<open>transport_check_fds\<close>

text \<open>
  Lines 418--446, once \<^verbatim>\<open>length\<close> is known: the protocol error, the partial frame,
  and the dispatch. \<open>b0\<close> is the receive buffer with its cursor at 0. The result is the
  returned status, the transport afterwards, and the streams the callback was
  invoked with, in order.
\<close>

definition transport_check_fds_dispatch ::
  "(transport \<Rightarrow> bool \<times> transport) \<Rightarrow> transport \<Rightarrow> stream \<Rightarrow> int \<Rightarrow> 16 word \<Rightarrow> int \<Rightarrow>
     int \<times> transport \<times> stream list" where
  "transport_check_fds_dispatch recv_callback t b0 p len status =
     (if len = 0 then
        (- 1,
         t\<lparr>recv_buffer := b0,
           stdout := stdout t @
             [''transport_check_fds: protocol error, not a TPKT or Fast Path header.'']\<rparr>,
         [])
      else if p < uint len then (0, t\<lparr>recv_buffer := stream_set_pos b0 p\<rparr>, [])
      else
        (let b1 = stream_set_pos (stream_seal (stream_set_pos b0 (uint len))) 0;
             t1 = t\<lparr>recv_buffer := b1, level := level t + 1\<rparr>
         in case recv_callback t1 of
              (ok, t2) \<Rightarrow>
                (let status' = (if ok = False then - 1 else status);
                     t3 = t2\<lparr>level := level t2 - 1\<rparr>;
                     t4 = t3\<lparr>recv_buffer := stream_set_pos (recv_buffer t3) 0\<rparr>
                 in if status' < 0 then (status', t4, [b1]) else (0, t4, [b1]))))"

definition transport_check_fds ::
  "(transport \<Rightarrow> bool \<times> transport) \<Rightarrow> transport \<Rightarrow> (int \<times> transport \<times> stream list) option" where
  "transport_check_fds recv_callback t =
     (if level t \<noteq> 0 then
        Some (- 1, t\<lparr>stdout := stdout t @ [''transport_check_fds: error, nested calls'']\<rparr>, [])
      else
        (case transport_read_nonblocking t of
           None \<Rightarrow> None
         | Some (status, t') \<Rightarrow>
             if status < 0 then Some (status, t', [])
             else
               (let p = stream_get_pos (recv_buffer t') in
                if p > 0 then
                  (let b0 = stream_set_pos (recv_buffer t') 0 in
                   if tpkt_verify_header b0 then
                     (if p \<le> 4 then Some (0, t'\<lparr>recv_buffer := stream_set_pos b0 p\<rparr>, [])
                      else Some (transport_check_fds_dispatch recv_callback t' b0 p
                                   (tpkt_read_header b0) status))
                   else
                     (if p \<le> 2 then Some (0, t'\<lparr>recv_buffer := stream_set_pos b0 p\<rparr>, [])
                      else if p < uint (fastpath_header_length b0)
                      then Some (0, t'\<lparr>recv_buffer := stream_set_pos b0 p\<rparr>, [])
                      else Some (transport_check_fds_dispatch recv_callback t' b0 p
                                   (fastpath_read_header b0) status)))
                else Some (0, t', []))))"

section \<open>Auxiliary notions for the statements\<close>

text \<open>
  The endpoint the layer tag selects (none when the layer is CLOSED, or TLS with a null
  \<open>tls\<close>), and the transport with that endpoint replaced.
\<close>

definition active_endpoint :: "transport \<Rightarrow> endpoint option" where
  "active_endpoint t =
     (if layer t = TRANSPORT_LAYER_TLS then tls t
      else if layer t = TRANSPORT_LAYER_TCP then Some (tcp t) else None)"

definition set_active_endpoint :: "transport \<Rightarrow> endpoint \<Rightarrow> transport" where
  "set_active_endpoint t e =
     (if layer t = TRANSPORT_LAYER_TLS then t\<lparr>tls := Some e\<rparr>
      else if layer t = TRANSPORT_LAYER_TCP then t\<lparr>tcp := e\<rparr> else t)"

text \<open>
  A read script delivers \<open>n\<close> bytes or an error: what makes a blocking read of \<open>n\<close>
  bytes return.
\<close>

fun rx_delivers :: "rd list \<Rightarrow> int \<Rightarrow> bool" where
  "rx_delivers [] n = (n \<le> 0)"
| "rx_delivers (Err c # r) n = True"
| "rx_delivers (Data bs # r) n = (n \<le> int (length bs) \<or> rx_delivers r (n - int (length bs)))"

text \<open>
  A caller that writes the streams of a list one after the other: the statuses
  returned and the transport at the end.
\<close>

fun transport_write_seq :: "transport \<Rightarrow> stream list \<Rightarrow> (int list \<times> transport) option" where
  "transport_write_seq t [] = Some ([], t)"
| "transport_write_seq t (s # ss) =
     (case transport_write t s of
        None \<Rightarrow> None
      | Some (st, t', s') \<Rightarrow>
          (case transport_write_seq t' ss of
             None \<Rightarrow> None
           | Some (sts, t'') \<Rightarrow> Some (st # sts, t'')))"

text \<open>
  A caller that invokes \<open>transport_check_fds\<close> \<open>k\<close> times, whatever the statuses: the
  transport at the end and the streams the callback was invoked with, in order.
\<close>

fun transport_check_fds_seq ::
  "(transport \<Rightarrow> bool \<times> transport) \<Rightarrow> transport \<Rightarrow> nat \<Rightarrow> (transport \<times> stream list) option" where
  "transport_check_fds_seq recv_callback t 0 = Some (t, [])"
| "transport_check_fds_seq recv_callback t (Suc k) =
     (case transport_check_fds recv_callback t of
        None \<Rightarrow> None
      | Some (st, t', calls) \<Rightarrow>
          (case transport_check_fds_seq recv_callback t' k of
             None \<Rightarrow> None
           | Some (t'', calls') \<Rightarrow> Some (t'', calls @ calls')))"








section \<open>Concrete endpoints and transports\<close>

text \<open>
  An endpoint on descriptor 3 whose reads find \<open>r\<close> and whose writes answer \<open>w\<close>, and
  the transport \<^verbatim>\<open>transport_new\<close> builds on it. \<open>idle_callback\<close> accepts every PDU
  and leaves the transport as it is.
\<close>

definition socket :: "rd list \<Rightarrow> int list \<Rightarrow> endpoint" where
  "socket r w = \<lparr>sockfd = 3, rx = r, wx = w, sent = [], rcalls = 0, wcalls = 0, handshake = True\<rparr>"

text \<open>A stream that holds the bytes \<open>bs\<close>, its cursor after the last of them.\<close>

definition pdu_stream :: "byte list \<Rightarrow> stream" where
  "pdu_stream bs = \<lparr>data = bytes_at bs, pos = int (length bs), ssize = BUFFER_SIZE\<rparr>"

definition idle_callback :: "transport \<Rightarrow> bool \<times> transport" where
  "idle_callback t = (True, t)"

text \<open>
  A callback that re-enters the dispatch on the transport it is given, and reports
  whether that call succeeded.
\<close>

definition reentrant_callback :: "transport \<Rightarrow> bool \<times> transport" where
  "reentrant_callback t =
     (case transport_check_fds idle_callback t of
        None \<Rightarrow> (False, t)
      | Some (st, t', calls) \<Rightarrow> (0 \<le> st, t'))"

section \<open>Arithmetic of the header fields\<close>

lemma shift_or_bytes:
  "push_bit 8 (uint (a :: byte)) OR uint (b :: byte) = uint a * 256 + uint b"
proof -
  have "push_bit 8 (uint a) + uint b = push_bit 8 (uint a) OR uint b"
    by (rule disjunctive_add) (auto simp: bit_simps dest: bit_imp_le_length)
  then show ?thesis
    by (simp add: push_bit_eq_mult)
qed

lemma byte_and_80: "(uint (b :: byte) AND 0x80 \<noteq> 0) = bit b 7"
proof -
  have "uint b AND 0x80 = uint (b AND 0x80)"
    by (simp add: uint_and)
  moreover have "(b AND 0x80 \<noteq> 0) = bit b 7"
    using and_exp_eq_0_iff_not_bit [of b 7] by simp
  ultimately show ?thesis
    by (simp add: uint_0_iff)
qed

lemma bit_128_int: "bit (128::int) n = (n = 7)"
  using bit_exp_iff [where ?'a = int, of 7 n] by simp

lemma bit_127_int: "bit (127::int) n = (n < 7)"
  using bit_mask_iff [where ?'a = int, of 7 n] by (simp add: mask_eq_exp_minus_1)

lemma bit_m129_int: "bit (- 129 :: int) n = (n \<noteq> 7)"
  using bit_not_iff [where ?'a = int, of 128 n] by (simp add: bit_128_int)

lemma and_not_80: "uint (b :: byte) AND - 129 = uint (b AND 0x7f)"
proof -
  have "uint b AND - 129 = uint b AND 127"
    by (rule bit_eqI) (auto simp: bit_and_iff bit_uint_iff bit_m129_int bit_127_int)
  then show ?thesis
    by (simp add: uint_and)
qed

lemma and_7f: "uint (b :: byte) AND 127 = uint (b AND 0x7f)"
  by (simp add: uint_and)

section \<open>Stream and endpoint facts\<close>

lemma stream_slice_rec:
  "stream_slice s off n = (if n \<le> 0 then [] else data s off # stream_slice s (off + 1) (n - 1))"
proof (cases "n \<le> 0")
  case True
  then show ?thesis by (simp add: stream_slice_def)
next
  case False
  then obtain k where k: "nat n = Suc k" "nat (n - 1) = k"
    by (cases "nat n") auto
  have "map (\<lambda>i. data s (off + int i)) [0..<Suc k] =
        data s off # map (\<lambda>i. data s (off + 1 + int i)) [0..<k]"
    by (simp add: upt_conv_Cons map_Suc_upt [symmetric] ac_simps del: upt_Suc)
  with False k show ?thesis by (simp add: stream_slice_def)
qed


section \<open>The read loop\<close>

lemma read_loop_done:
  "\<not> rd < bytes \<Longrightarrow> transport_read_layer_loop t s off bytes rd st = Some (rd, t, s)"
  by (subst transport_read_layer_loop.simps) simp

lemma read_layer_nonpos: "n \<le> 0 \<Longrightarrow> transport_read_layer t s off n = Some (0, t, s)"
  by (simp add: transport_read_layer_def read_loop_done)

lemma endpoint_read_length:
  "endpoint_read e n = (st, bs, e') \<Longrightarrow> int (length bs) \<le> max 0 n"
  by (auto simp: endpoint_read_def split: list.splits rd.splits)

lemma layer_read_active:
  assumes "active_endpoint t = Some e" and "off + max 0 n \<le> ssize s"
  shows "layer_read t s off n st =
     (case endpoint_read e n of
        (st', bs, e') \<Rightarrow> Some (st', set_active_endpoint t e', stream_store s off bs))"
proof -
  obtain st' bs e' where er: "endpoint_read e n = (st', bs, e')"
    by (cases "endpoint_read e n") auto
  from endpoint_read_length [OF er] assms(2) have "\<not> ssize s < off + int (length bs)"
    by linarith
  with assms(1) er show ?thesis
    by (auto simp: active_endpoint_def set_active_endpoint_def layer_read_def split: if_splits)
qed

lemma layer_read_active_Some:
  assumes "active_endpoint t = Some e" and "layer_read t s off n st = Some (st', t', s')"
  shows "\<exists>bs e'. endpoint_read e n = (st', bs, e') \<and> t' = set_active_endpoint t e' \<and>
           s' = stream_store s off bs"
  using assms
  by (auto simp: active_endpoint_def set_active_endpoint_def layer_read_def
      split: if_splits prod.splits)

lemma ssize_stream_store [simp]: "ssize (stream_store s off bs) = ssize s"
  by (simp add: stream_store_def)

lemma pos_stream_store [simp]: "pos (stream_store s off bs) = pos s"
  by (simp add: stream_store_def)

lemma layer_read_inactive:
  "active_endpoint t = None \<Longrightarrow> layer t \<noteq> TRANSPORT_LAYER_TLS \<Longrightarrow>
   layer_read t s off n st = Some (st, t, s)"
  by (auto simp: active_endpoint_def layer_read_def split: if_splits)

lemma set_active_endpoint_simps [simp]:
  "blocking (set_active_endpoint t e) = blocking t"
  "layer (set_active_endpoint t e) = layer t"
  "stdout (set_active_endpoint t e) = stdout t"
  "level (set_active_endpoint t e) = level t"
  "recv_buffer (set_active_endpoint t e) = recv_buffer t"
  by (simp_all add: set_active_endpoint_def)

lemma active_set_active:
  "active_endpoint t = Some e \<Longrightarrow> active_endpoint (set_active_endpoint t e') = Some e'"
  by (auto simp: active_endpoint_def set_active_endpoint_def split: if_splits)




lemma endpoint_read_le: "0 < n \<Longrightarrow> fst (endpoint_read e n) \<le> n"
  by (auto simp: endpoint_read_def split: list.splits rd.splits)

lemma rx_delivers_nonpos:
  assumes "n \<le> 0"
  shows "rx_delivers r n"
proof (cases r)
  case Nil
  with assms show ?thesis by simp
next
  case (Cons x xs)
  with assms show ?thesis by (cases x) auto
qed

lemma read_layer_nonblocking:
  "blocking t = False \<Longrightarrow> 0 < n \<Longrightarrow>
   transport_read_layer t s off n = layer_read t s off n (- 1)"
  unfolding transport_read_layer_def
  by (subst transport_read_layer_loop.simps)
     (auto simp: layer_read_def split: option.splits prod.splits)

lemma endpoint_read_negative:
  "endpoint_read e n = (st, bs, e') \<Longrightarrow> st < 0 \<Longrightarrow>
   \<exists>c. Err c \<in> set (rx e) \<and> st = (if c < 0 then c else - 1)"
  by (auto simp: endpoint_read_def split: list.splits rd.splits if_splits)

lemma endpoint_read_errs:
  "endpoint_read e n = (st, bs, e') \<Longrightarrow> Err c \<in> set (rx e') \<Longrightarrow> Err c \<in> set (rx e)"
  by (auto simp: endpoint_read_def split: list.splits rd.splits if_splits)

lemma read_loop_blocking_status:
  assumes "transport_read_layer_loop t s off bytes rd status = Some y"
    and "blocking t" and "rd \<le> bytes" and "active_endpoint t = Some e"
  shows "fst y = bytes \<or> (\<exists>c. Err c \<in> set (rx e) \<and> fst y = (if c < 0 then c else - 1))"
proof -
  define P where "P = (\<lambda>(t::transport) (s::stream) (off::int) (bytes::int) (rd::int)
      (status::int) (y :: int \<times> transport \<times> stream).
        blocking t \<longrightarrow> rd \<le> bytes \<longrightarrow> (\<forall>e. active_endpoint t = Some e \<longrightarrow>
        fst y = bytes \<or> (\<exists>c. Err c \<in> set (rx e) \<and> fst y = (if c < 0 then c else - 1))))"
  have "P t s off bytes rd status y"
  proof (rule transport_read_layer_loop.raw_induct [where P = P, OF _ assms(1)], goal_cases)
    case (1 loop t s off bytes rd status y)
    show ?case
      unfolding P_def
    proof (intro impI allI)
      fix e
      assume bl: "blocking t" and le: "rd \<le> bytes" and act: "active_endpoint t = Some e"
      show "fst y = bytes \<or> (\<exists>c. Err c \<in> set (rx e) \<and> fst y = (if c < 0 then c else - 1))"
      proof (cases "rd < bytes")
        case False
        with 1(2) le show ?thesis by auto
      next
        case True
        with 1(2) obtain st' t' s' where
          lr: "layer_read t s (off + rd) (bytes - rd) status = Some (st', t', s')"
          by (auto split: option.splits)
        from layer_read_active_Some [OF act lr] obtain bs e' where
          er: "endpoint_read e (bytes - rd) = (st', bs, e')"
          and t': "t' = set_active_endpoint t e'" and s': "s' = stream_store s (off + rd) bs"
          by blast
        have st_le: "st' \<le> bytes - rd"
          using endpoint_read_le [of "bytes - rd" e] True er by simp
        show ?thesis
        proof (cases "st' < 0")
          case True
          with 1(2) lr \<open>rd < bytes\<close> have "fst y = st'"
            by (auto split: if_splits)
          with endpoint_read_negative [OF er True] show ?thesis by simp
        next
          case False
          with 1(2) bl lr t' \<open>rd < bytes\<close>
          have "loop t' s' off bytes (rd + st') st' = Some y"
            by auto
          from 1(1) [OF this] st_le bl le act t'
          have "fst y = bytes \<or> (\<exists>c. Err c \<in> set (rx e') \<and> fst y = (if c < 0 then c else - 1))"
            by (simp add: P_def active_set_active)
          with endpoint_read_errs [OF er] show ?thesis by blast
        qed
      qed
    qed
  qed
  with assms show ?thesis by (simp add: P_def)
qed

lemma read_loop_blocking_returns:
  "active_endpoint t = Some e \<Longrightarrow> rx e = r \<Longrightarrow> rd \<le> bytes \<Longrightarrow> 0 \<le> rd \<Longrightarrow>
   off + bytes \<le> ssize s \<Longrightarrow> rx_delivers r (bytes - rd) \<Longrightarrow>
   \<exists>y. transport_read_layer_loop t s off bytes rd status = Some y"
proof (induction r arbitrary: t e s rd status)
  case Nil
  then show ?case by (simp add: read_loop_done)
next
  case (Cons x r)
  show ?case
  proof (cases "rd < bytes")
    case False
    then show ?thesis by (simp add: read_loop_done)
  next
    case True
    with Cons.prems have room: "off + rd + max 0 (bytes - rd) \<le> ssize s"
      by simp
    note lra = layer_read_active [OF Cons.prems(1) room]
    show ?thesis
    proof (cases x)
      case (Err c)
      with Cons.prems True show ?thesis
        by (subst transport_read_layer_loop.simps) (simp add: lra endpoint_read_def)
    next
      case (Data bs)
      show ?thesis
      proof (cases "length bs \<le> nat (bytes - rd)")
        case short: True
        let ?e' = "e\<lparr>rx := r, rcalls := Suc (rcalls e)\<rparr>"
        let ?t' = "set_active_endpoint t ?e'"
        have er: "endpoint_read e (bytes - rd) = (int (length bs), bs, ?e')"
          using Cons.prems(2) Data short by (simp add: endpoint_read_def)
        have "rx_delivers r (bytes - (rd + int (length bs)))"
        proof (cases "bytes - rd \<le> int (length bs)")
          case True
          then show ?thesis by (intro rx_delivers_nonpos) simp
        next
          case False
          with Cons.prems(6) Data show ?thesis by (simp add: algebra_simps)
        qed
        moreover have "rd + int (length bs) \<le> bytes"
          using short True by linarith
        moreover have "active_endpoint ?t' = Some ?e'"
          using Cons.prems(1) by (rule active_set_active)
        ultimately have "\<exists>y. transport_read_layer_loop ?t' (stream_store s (off + rd) bs) off
            bytes (rd + int (length bs)) (int (length bs)) = Some y"
          using Cons.IH [of ?t' ?e' "rd + int (length bs)" "stream_store s (off + rd) bs"]
            Cons.prems(4,5)
          by simp
        with True er show ?thesis
          by (subst transport_read_layer_loop.simps) (auto simp: lra)
      next
        case long: False
        let ?n = "bytes - rd"
        have er: "endpoint_read e ?n =
            (?n, take (nat ?n) bs, e\<lparr>rx := Data (drop (nat ?n) bs) # r, rcalls := Suc (rcalls e)\<rparr>)"
          using Cons.prems(2) Data long True by (simp add: endpoint_read_def min_def)
        with True show ?thesis
          by (subst transport_read_layer_loop.simps) (auto simp: lra read_loop_done)
      qed
    qed
  qed
qed

lemma read_layer_closed:
  "active_endpoint t = None \<Longrightarrow> layer t \<noteq> TRANSPORT_LAYER_TLS \<Longrightarrow> 0 < n \<Longrightarrow>
   transport_read_layer t s off n = Some (- 1, t, s)"
  unfolding transport_read_layer_def
  by (subst transport_read_layer_loop.simps) (simp add: layer_read_inactive)

section \<open>The write loop\<close>

lemma write_loop_done:
  "\<not> 0 < len \<Longrightarrow> transport_write_loop t s len st = Some (st, t, s)"
  by (subst transport_write_loop.simps) simp

lemma layer_write_inactive:
  "layer t = TRANSPORT_LAYER_CLOSED \<Longrightarrow> layer_write t s len st = Some (st, t)"
  by (simp add: layer_write_def)

lemma write_loop_closed:
  "layer t = TRANSPORT_LAYER_CLOSED \<Longrightarrow> transport_write_loop t s len (- 1) = Some (- 1, t, s)"
  by (subst transport_write_loop.simps) (simp add: layer_write_inactive)

lemma transport_write_closed:
  assumes "layer t = TRANSPORT_LAYER_CLOSED"
  shows "transport_write t s = Some (- 1, t, stream_set_pos s 0)"
proof -
  have "t\<lparr>layer := TRANSPORT_LAYER_CLOSED\<rparr> = t"
    using assms by (cases t) simp
  with assms show ?thesis
    by (simp add: transport_write_def write_loop_closed Let_def)
qed

lemma transport_write_seq_closed:
  "layer t = TRANSPORT_LAYER_CLOSED \<Longrightarrow>
   transport_write_seq t ss = Some (replicate (length ss) (- 1), t)"
  by (induction ss) (simp_all add: transport_write_closed)

lemma transport_write_negative:
  "transport_write t s = Some (st, t', s') \<Longrightarrow> st < 0 \<Longrightarrow> layer t' = TRANSPORT_LAYER_CLOSED"
  by (auto simp: transport_write_def Let_def split: option.splits prod.splits if_splits)

lemma transport_write_empty:
  "stream_get_length s \<le> 0 \<Longrightarrow>
   transport_write t s = Some (- 1, t\<lparr>layer := TRANSPORT_LAYER_CLOSED\<rparr>, stream_set_pos s 0)"
  by (simp add: transport_write_def write_loop_done Let_def)

section \<open>The body read of transport_read\<close>

lemma transport_read_body_short:
  "fst (transport_read_pdu_bytes (data s)) \<le> sb \<Longrightarrow>
   transport_read_body t s sb ts =
     Some (ts, t\<lparr>stdout := stdout t @ snd (transport_read_pdu_bytes (data s))\<rparr>, s)"
  by (cases "transport_read_pdu_bytes (data s)")
     (simp add: transport_read_body_def read_layer_nonpos)

section \<open>Framing and non-blocking reads\<close>












lemma stream_slice_length [simp]: "length (stream_slice s off n) = nat n"
  by (simp add: stream_slice_def)



lemma stream_slice_cong:
  "(\<And>i. 0 \<le> i \<Longrightarrow> i < n \<Longrightarrow> data s i = data s' i) \<Longrightarrow>
   stream_slice s 0 n = stream_slice s' 0 n"
  by (auto simp: stream_slice_def)








section \<open>One dispatch call, and a sequence of them\<close>

lemma stream_check_size_simps [simp]:
  "pos (stream_check_size s n) = pos s"
  "data (stream_check_size s n) = data s"
  by (simp_all add: stream_check_size_def)





lemma stream_set_pos_simps [simp]:
  "pos (stream_set_pos s m) = m"
  "data (stream_set_pos s m) = data s"
  "ssize (stream_set_pos s m) = ssize s"
  by (simp_all add: stream_set_pos_def)










lemma check_fds_seq_stuck:
  "transport_check_fds cb t = Some (st, t, []) \<Longrightarrow> transport_check_fds_seq cb t k = Some (t, [])"
  by (induction k) simp_all

lemma check_fds_seq_Suc:
  "transport_check_fds cb t = Some (st, t', calls) \<Longrightarrow>
   transport_check_fds_seq cb t' k = Some (t'', calls') \<Longrightarrow>
   transport_check_fds_seq cb t (Suc k) = Some (t'', calls @ calls')"
  by simp




text \<open>The equations that evaluate a dispatch call on a concrete transport.\<close>

lemmas transport_eval =
  transport_check_fds_def transport_check_fds_dispatch_def
  transport_read_nonblocking_def transport_read_def transport_read_body_def
  transport_read_layer_def transport_read_layer_loop.simps layer_read_def
  transport_read_pdu_bytes_def endpoint_read_def
  tpkt_verify_header_def tpkt_read_header_def fastpath_header_length_def
  fastpath_read_header_def
  stream_check_size_def stream_get_length_def stream_get_pos_def stream_set_pos_def
  stream_seek_def stream_seal_def stream_store_def stream_contents_def stream_slice_rec
  transport_new_def stream_new_def socket_def idle_callback_def BUFFER_SIZE_def Let_def

section \<open>The framing recognizer: TSRequest\<close>

text \<open>
  C5. For every buffer whose first byte is \<open>0x30\<close>, the recognizer of
  \<open>transport_read\<close> computes the TSRequest length: a second byte with bit 7 clear
  gives that byte plus 2; a second byte \<open>0x81\<close> gives the third byte plus 3; a second
  byte \<open>0x82\<close> gives third byte times 256 plus fourth byte plus 4; a second byte with
  bit 7 set that announces more than 2 length octets prints the error message and
  leaves the length at 0.
\<close>

theorem tsrequest_pdu_bytes:
  assumes "d 0 = 0x30"
  shows "(\<not> bit (d 1) 7 \<longrightarrow> transport_read_pdu_bytes d = (uint (d 1) + 2, [])) \<and>
         (d 1 = 0x81 \<longrightarrow> transport_read_pdu_bytes d = (uint (d 2) + 3, [])) \<and>
         (d 1 = 0x82 \<longrightarrow>
            transport_read_pdu_bytes d = (uint (d 2) * 256 + uint (d 3) + 4, [])) \<and>
         (bit (d 1) 7 \<and> 2 < uint (d 1 AND 0x7f) \<longrightarrow>
            transport_read_pdu_bytes d = (0, [''Error reading TSRequest!'']))"
  using assms
  by (simp add: transport_read_pdu_bytes_def byte_and_80 shift_or_bytes and_not_80)

theorem tsrequest_pdu_bytes_witness:
  "transport_read_pdu_bytes (bytes_at [0x30, 0x05]) = (7, []) \<and>
   transport_read_pdu_bytes (bytes_at [0x30, 0x81, 0x80]) = (131, []) \<and>
   transport_read_pdu_bytes (bytes_at [0x30, 0x82, 0x01, 0x00]) = (260, []) \<and>
   transport_read_pdu_bytes (bytes_at [0x30, 0x83, 0x01, 0x00, 0x00]) =
     (0, [''Error reading TSRequest!''])"
  using tsrequest_pdu_bytes [of "bytes_at [0x30, 0x05]"]
    tsrequest_pdu_bytes [of "bytes_at [0x30, 0x81, 0x80]"]
    tsrequest_pdu_bytes [of "bytes_at [0x30, 0x82, 0x01, 0x00]"]
    tsrequest_pdu_bytes [of "bytes_at [0x30, 0x83, 0x01, 0x00, 0x00]"]
  by (simp add: bytes_at_def)

section \<open>The framing recognizer: TPKT and Fast-Path\<close>

text \<open>
  C6, as the code has it. For every buffer whose first byte is \<open>0x03\<close> the recognizer
  computes byte 2 times 256 plus byte 3. For every buffer whose first byte is neither
  \<open>0x03\<close> nor \<open>0x30\<close> it decodes Fast-Path from byte 1: with bit 7 clear the length is
  byte 1, otherwise it is \<open>((byte1 & 0x7f) << 8) | byte2\<close>, which is the low seven bits
  of byte 1 times 256 plus byte 2.
\<close>

theorem tpkt_fastpath_pdu_bytes:
  "(d 0 = 0x03 \<longrightarrow> transport_read_pdu_bytes d = (uint (d 2) * 256 + uint (d 3), [])) \<and>
   (d 0 \<noteq> 0x03 \<and> d 0 \<noteq> 0x30 \<and> \<not> bit (d 1) 7 \<longrightarrow>
      transport_read_pdu_bytes d = (uint (d 1), [])) \<and>
   (d 0 \<noteq> 0x03 \<and> d 0 \<noteq> 0x30 \<and> bit (d 1) 7 \<longrightarrow>
      transport_read_pdu_bytes d = (push_bit 8 (uint (d 1 AND 0x7f)) OR uint (d 2), []) \<and>
      transport_read_pdu_bytes d = (uint (d 1 AND 0x7f) * 256 + uint (d 2), []))"
  by (simp add: transport_read_pdu_bytes_def byte_and_80 shift_or_bytes and_7f)

theorem tpkt_fastpath_pdu_bytes_witness:
  "transport_read_pdu_bytes (bytes_at [0x03, 0x00, 0x00, 0x04]) = (4, []) \<and>
   transport_read_pdu_bytes (bytes_at [0x00, 0x08]) = (8, []) \<and>
   transport_read_pdu_bytes (bytes_at [0x00, 0x82, 0x00]) = (512, [])"
  using tpkt_fastpath_pdu_bytes [of "bytes_at [0x03, 0x00, 0x00, 0x04]"]
    tpkt_fastpath_pdu_bytes [of "bytes_at [0x00, 0x08]"]
    tpkt_fastpath_pdu_bytes [of "bytes_at [0x00, 0x82, 0x00]"]
  by (simp add: bytes_at_def)

text \<open>
  The claim's example for the long form does not hold: in the buffer \<open>80 02 00\<close> byte 1
  is \<open>0x02\<close>, whose bit 7 is clear, so the recognizer takes the short form and the
  length is 2, not 512.
\<close>

theorem fastpath_80_02_00_counterexample:
  "transport_read_pdu_bytes (bytes_at [0x80, 0x02, 0x00]) = (2, []) \<and>
   fst (transport_read_pdu_bytes (bytes_at [0x80, 0x02, 0x00])) \<noteq> 512"
  by (simp add: transport_read_pdu_bytes_def bytes_at_def)

section \<open>Upgrade to TLS\<close>

text \<open>
  C2, as the code has it. \<open>transport_connect_tls\<close> sets the layer to TLS before it
  attempts the handshake: when the handshake of the endpoint it uses (the existing
  \<open>tls\<close>, or the new one) fails, it returns false and the layer is TLS, whatever it
  was before the call.
\<close>

theorem transport_connect_tls_failure:
  assumes "handshake (case tls t of None \<Rightarrow> tls_new | Some e \<Rightarrow> e) = False"
  shows "fst (transport_connect_tls tls_new t) = False \<and>
         layer (snd (transport_connect_tls tls_new t)) = TRANSPORT_LAYER_TLS"
  using assms
  by (cases "tls t") (simp_all add: transport_connect_tls_def tls_connect_def Let_def)

theorem transport_connect_tls_failure_witness:
  "fst (transport_connect_tls ((socket [] [])\<lparr>handshake := False\<rparr>)
          (transport_new (socket [] []))) = False \<and>
   layer (snd (transport_connect_tls ((socket [] [])\<lparr>handshake := False\<rparr>)
          (transport_new (socket [] [])))) = TRANSPORT_LAYER_TLS"
  using transport_connect_tls_failure
    [where t = "transport_new (socket [] [])"
       and tls_new = "(socket [] [])\<lparr>handshake := False\<rparr>"]
  by (simp add: transport_new_def socket_def)

text \<open>
  The claim fails on a fresh transport: its layer is TCP, the handshake fails, the
  call returns false, and the layer afterwards is TLS.
\<close>

theorem transport_connect_tls_layer_counterexample:
  "layer (transport_new (socket [] [])) = TRANSPORT_LAYER_TCP \<and>
   fst (transport_connect_tls ((socket [] [])\<lparr>handshake := False\<rparr>)
          (transport_new (socket [] []))) = False \<and>
   layer (snd (transport_connect_tls ((socket [] [])\<lparr>handshake := False\<rparr>)
          (transport_new (socket [] [])))) \<noteq> layer (transport_new (socket [] []))"
  by (simp add: transport_connect_tls_def tls_connect_def transport_new_def socket_def Let_def)

section \<open>Re-entrant dispatch\<close>

text \<open>
  C7. When \<open>transport_check_fds\<close> is invoked with a nonzero \<open>level\<close>, it prints the
  error and returns -1 at once: the transport afterwards is the one before but for
  the printed line (so no endpoint was read and the receive buffer is as it was) and
  the callback was not invoked. So a callback that re-enters the dispatch gets -1
  from it, with one line printed and no further read of the endpoint.
\<close>

theorem transport_check_fds_nested:
  assumes "level t \<noteq> 0"
  shows "transport_check_fds recv_callback t =
           Some (- 1, t\<lparr>stdout := stdout t @ [''transport_check_fds: error, nested calls'']\<rparr>, [])"
  using assms by (simp add: transport_check_fds_def)

theorem transport_check_fds_nested_witness:
  "transport_check_fds idle_callback
     ((transport_new (socket [Data [0x04, 0x04, 0x11, 0x22]] []))\<lparr>level := 1\<rparr>) =
   Some (- 1,
     (transport_new (socket [Data [0x04, 0x04, 0x11, 0x22]] []))
       \<lparr>level := 1, stdout := [''transport_check_fds: error, nested calls'']\<rparr>, []) \<and>
   map_option (\<lambda>(st, t, calls). (st, stdout t, rcalls (tcp t), map stream_contents calls))
     (transport_check_fds reentrant_callback
        ((transport_new (socket [Data [0x04, 0x04, 0x11, 0x22]] []))\<lparr>blocking := False\<rparr>)) =
   Some (- 1, [''transport_check_fds: error, nested calls''], 1, [[0x04, 0x04, 0x11, 0x22]])"
proof (intro conjI)
  show "transport_check_fds idle_callback
     ((transport_new (socket [Data [0x04, 0x04, 0x11, 0x22]] []))\<lparr>level := 1\<rparr>) =
   Some (- 1,
     (transport_new (socket [Data [0x04, 0x04, 0x11, 0x22]] []))
       \<lparr>level := 1, stdout := [''transport_check_fds: error, nested calls'']\<rparr>, [])"
    using transport_check_fds_nested
      [where t = "(transport_new (socket [Data [0x04, 0x04, 0x11, 0x22]] []))\<lparr>level := 1\<rparr>"
         and recv_callback = idle_callback]
    by (simp add: transport_new_def)
next
  show "map_option (\<lambda>(st, t, calls). (st, stdout t, rcalls (tcp t), map stream_contents calls))
     (transport_check_fds reentrant_callback
        ((transport_new (socket [Data [0x04, 0x04, 0x11, 0x22]] []))\<lparr>blocking := False\<rparr>)) =
   Some (- 1, [''transport_check_fds: error, nested calls''], 1, [[0x04, 0x04, 0x11, 0x22]])"
    by (simp add: transport_eval reentrant_callback_def)
qed

section \<open>transport_read_layer\<close>

text \<open>
  C8, as the code has it. Asked for \<open>n \<le> 0\<close> bytes, \<open>transport_read_layer\<close> returns 0
  without reading; on a CLOSED layer, asked for \<open>n > 0\<close> bytes, it returns -1 without
  reading. Asked for \<open>n > 0\<close> bytes on the endpoint of the layer, into a stream
  with room for them: when \<open>blocking\<close> is false it returns the status of its first
  endpoint read, after that one read; when \<open>blocking\<close> is true, whatever it returns is
  either exactly \<open>n\<close> or the negative status of an error of the endpoint, unchanged,
  and it does return whenever the endpoint delivers \<open>n\<close> bytes or an error.
\<close>

theorem transport_read_layer_contract:
  "(n \<le> 0 \<longrightarrow> transport_read_layer t s off n = Some (0, t, s)) \<and>
   (0 < n \<and> layer t = TRANSPORT_LAYER_CLOSED \<longrightarrow>
      transport_read_layer t s off n = Some (- 1, t, s)) \<and>
   (0 < n \<and> active_endpoint t = Some e \<and> blocking t = False \<and> off + n \<le> ssize s \<longrightarrow>
      transport_read_layer t s off n =
        (case endpoint_read e n of
           (st, bs, e') \<Rightarrow> Some (st, set_active_endpoint t e', stream_store s off bs))) \<and>
   (0 < n \<and> active_endpoint t = Some e \<and> blocking t \<longrightarrow>
      (\<forall>y. transport_read_layer t s off n = Some y \<longrightarrow>
         fst y = n \<or> (\<exists>c. Err c \<in> set (rx e) \<and> fst y = (if c < 0 then c else - 1))) \<and>
      (off + n \<le> ssize s \<and> rx_delivers (rx e) n \<longrightarrow>
         (\<exists>y. transport_read_layer t s off n = Some y)))"
proof (intro conjI impI allI)
  assume "n \<le> 0"
  then show "transport_read_layer t s off n = Some (0, t, s)"
    by (rule read_layer_nonpos)
next
  assume "0 < n \<and> layer t = TRANSPORT_LAYER_CLOSED"
  then show "transport_read_layer t s off n = Some (- 1, t, s)"
    by (simp add: read_layer_closed active_endpoint_def)
next
  assume "0 < n \<and> active_endpoint t = Some e \<and> blocking t = False \<and> off + n \<le> ssize s"
  then show "transport_read_layer t s off n =
      (case endpoint_read e n of
         (st, bs, e') \<Rightarrow> Some (st, set_active_endpoint t e', stream_store s off bs))"
    by (simp add: read_layer_nonblocking layer_read_active)
next
  fix y
  assume "0 < n \<and> active_endpoint t = Some e \<and> blocking t"
    and "transport_read_layer t s off n = Some y"
  then show "fst y = n \<or> (\<exists>c. Err c \<in> set (rx e) \<and> fst y = (if c < 0 then c else - 1))"
    using read_loop_blocking_status [of t s off n 0 "- 1" y e]
    by (simp add: transport_read_layer_def)
next
  assume "0 < n \<and> active_endpoint t = Some e \<and> blocking t"
    and "off + n \<le> ssize s \<and> rx_delivers (rx e) n"
  then show "\<exists>y. transport_read_layer t s off n = Some y"
    using read_loop_blocking_returns [of t e "rx e" 0 n off s "- 1"]
    by (simp add: transport_read_layer_def)
qed

theorem transport_read_layer_contract_witness:
  "transport_read_layer (transport_new (socket [Data [1, 2], Data [], Data [3, 4, 5]] []))
     (stream_new 16) 0 (- 2) =
     Some (0, transport_new (socket [Data [1, 2], Data [], Data [3, 4, 5]] []), stream_new 16) \<and>
   transport_read_layer
     ((transport_new (socket [Data [1, 2]] []))\<lparr>layer := TRANSPORT_LAYER_CLOSED\<rparr>)
     (stream_new 16) 0 4 =
     Some (- 1, (transport_new (socket [Data [1, 2]] []))\<lparr>layer := TRANSPORT_LAYER_CLOSED\<rparr>,
       stream_new 16) \<and>
   map_option fst (transport_read_layer
     ((transport_new (socket [Data [1, 2], Data [], Data [3, 4, 5]] []))\<lparr>blocking := False\<rparr>)
     (stream_new 16) 0 4) = Some 2 \<and>
   (\<exists>y. transport_read_layer (transport_new (socket [Data [1, 2], Data [], Data [3, 4, 5]] []))
          (stream_new 16) 0 4 = Some y \<and> fst y = 4)"
  using
    transport_read_layer_contract [where n = "- 2" and s = "stream_new 16" and off = 0
      and t = "transport_new (socket [Data [1, 2], Data [], Data [3, 4, 5]] [])"]
    transport_read_layer_contract [where n = 4 and s = "stream_new 16" and off = 0
      and t = "(transport_new (socket [Data [1, 2]] []))\<lparr>layer := TRANSPORT_LAYER_CLOSED\<rparr>"]
    transport_read_layer_contract [where n = 4 and s = "stream_new 16" and off = 0
      and e = "socket [Data [1, 2], Data [], Data [3, 4, 5]] []"
      and t = "(transport_new (socket [Data [1, 2], Data [], Data [3, 4, 5]] []))\<lparr>blocking := False\<rparr>"]
    transport_read_layer_contract [where n = 4 and s = "stream_new 16" and off = 0
      and e = "socket [Data [1, 2], Data [], Data [3, 4, 5]] []"
      and t = "transport_new (socket [Data [1, 2], Data [], Data [3, 4, 5]] [])"]
  by (auto simp: transport_new_def socket_def active_endpoint_def endpoint_read_def
      stream_new_def)

text \<open>
  The claim fails when the count is negative, as in the body read of \<open>transport_read\<close>
  after a short declared length: asked for -2 bytes in blocking mode the function
  returns 0, which is neither a negative status nor \<open>n\<close>; in non-blocking mode it
  returns 0 as well, and the endpoint was not read at all.
\<close>

theorem transport_read_layer_negative_count_counterexample:
  "blocking (transport_new (socket [Data [1, 2, 3, 4]] [])) \<and>
   transport_read_layer (transport_new (socket [Data [1, 2, 3, 4]] [])) (stream_new 16) 0 (- 2) =
     Some (0, transport_new (socket [Data [1, 2, 3, 4]] []), stream_new 16) \<and>
   \<not> ((0::int) < 0 \<or> (0::int) = - 2) \<and>
   transport_read_layer ((transport_new (socket [Data [1, 2, 3, 4]] []))\<lparr>blocking := False\<rparr>)
       (stream_new 16) 0 (- 2) =
     Some (0, (transport_new (socket [Data [1, 2, 3, 4]] []))\<lparr>blocking := False\<rparr>, stream_new 16)"
  by (simp add: read_layer_nonpos transport_new_def)

section \<open>Write failures\<close>

text \<open>
  C4. When a \<open>transport_write\<close> call returns a negative status, the layer of the
  transport is CLOSED afterwards, and every later \<open>transport_write\<close> call returns
  -1 and leaves the transport as it is: neither endpoint is touched, so no write
  operation of an endpoint was invoked (each one would count in \<open>wcalls\<close>).
\<close>

theorem transport_write_failure_closes:
  assumes "transport_write t s = Some (st, t', s')" and "st < 0"
  shows "layer t' = TRANSPORT_LAYER_CLOSED \<and>
         transport_write_seq t' ss = Some (replicate (length ss) (- 1), t')"
  using assms transport_write_negative [OF assms] by (simp add: transport_write_seq_closed)

theorem transport_write_failure_closes_witness:
  "transport_write (transport_new (socket [] [- 1])) (pdu_stream [3, 0, 0, 5, 7]) =
     Some (- 1,
       (transport_new (socket [] []))
         \<lparr>layer := TRANSPORT_LAYER_CLOSED, tcp := (socket [] [])\<lparr>wcalls := 1\<rparr>\<rparr>,
       stream_set_pos (pdu_stream [3, 0, 0, 5, 7]) 0) \<and>
   transport_write_seq
     ((transport_new (socket [] []))
        \<lparr>layer := TRANSPORT_LAYER_CLOSED, tcp := (socket [] [])\<lparr>wcalls := 1\<rparr>\<rparr>)
     [pdu_stream [3, 0, 0, 5, 7], pdu_stream [4, 4, 1, 2]] =
     Some ([- 1, - 1],
       (transport_new (socket [] []))
         \<lparr>layer := TRANSPORT_LAYER_CLOSED, tcp := (socket [] [])\<lparr>wcalls := 1\<rparr>\<rparr>)"
proof -
  have w: "transport_write (transport_new (socket [] [- 1])) (pdu_stream [3, 0, 0, 5, 7]) =
     Some (- 1,
       (transport_new (socket [] []))
         \<lparr>layer := TRANSPORT_LAYER_CLOSED, tcp := (socket [] [])\<lparr>wcalls := 1\<rparr>\<rparr>,
       stream_set_pos (pdu_stream [3, 0, 0, 5, 7]) 0)"
    by (simp add: transport_write_def transport_write_loop.simps layer_write_def
        transport_new_def socket_def endpoint_write_def stream_set_pos_def
        stream_get_length_def pdu_stream_def Let_def)
  from transport_write_failure_closes [OF w, of "[pdu_stream [3, 0, 0, 5, 7], pdu_stream [4, 4, 1, 2]]"] w
  show ?thesis by simp
qed

section \<open>Empty writes\<close>

text \<open>
  C9. On a transport whose layer is TCP or TLS, \<open>transport_write\<close> with a stream of
  length 0 returns -1 and sets the layer to CLOSED; the endpoints are as before, so
  no endpoint write was performed. Every later write then returns -1 and leaves the
  transport as it is.
\<close>

theorem transport_write_empty_closes:
  assumes "layer t = TRANSPORT_LAYER_TCP \<or> layer t = TRANSPORT_LAYER_TLS"
    and "stream_get_length s = 0"
  shows "transport_write t s =
           Some (- 1, t\<lparr>layer := TRANSPORT_LAYER_CLOSED\<rparr>, stream_set_pos s 0) \<and>
         tcp (t\<lparr>layer := TRANSPORT_LAYER_CLOSED\<rparr>) = tcp t \<and>
         tls (t\<lparr>layer := TRANSPORT_LAYER_CLOSED\<rparr>) = tls t \<and>
         transport_write_seq (t\<lparr>layer := TRANSPORT_LAYER_CLOSED\<rparr>) ss =
           Some (replicate (length ss) (- 1), t\<lparr>layer := TRANSPORT_LAYER_CLOSED\<rparr>)"
  using assms by (simp add: transport_write_empty transport_write_seq_closed)

theorem transport_write_empty_closes_witness:
  "transport_write (transport_new (socket [] [])) (pdu_stream []) =
     Some (- 1, (transport_new (socket [] []))\<lparr>layer := TRANSPORT_LAYER_CLOSED\<rparr>,
       stream_set_pos (pdu_stream []) 0) \<and>
   transport_write_seq ((transport_new (socket [] []))\<lparr>layer := TRANSPORT_LAYER_CLOSED\<rparr>)
     [pdu_stream [3, 0, 0, 5, 7]] =
     Some ([- 1], (transport_new (socket [] []))\<lparr>layer := TRANSPORT_LAYER_CLOSED\<rparr>)"
  using transport_write_empty_closes
    [where t = "transport_new (socket [] [])" and s = "pdu_stream []"
       and ss = "[pdu_stream [3, 0, 0, 5, 7]]"]
  by (simp add: transport_new_def pdu_stream_def stream_get_length_def)

section \<open>Declared length shorter than the buffered bytes\<close>

text \<open>
  C10. Let \<open>transport_read\<close> have its header: either the stream already held at
  least 4 bytes, or the header read returned \<open>h \<ge> 0\<close> bytes that complete them.
  When the declared PDU length it then computes is not larger than the bytes
  buffered, the body read is asked for a non-positive count, its loop does not run
  (it returns 0 and leaves transport and stream as they are), and \<open>transport_read\<close>
  returns \<open>h\<close>, the non-negative count of header bytes read in this call.
\<close>

theorem transport_read_short_length:
  assumes "if stream_get_length s < 4
           then transport_read_layer t s (stream_get_length s) (4 - stream_get_length s) =
                  Some (h, t', s') \<and> 0 \<le> h \<and> 4 \<le> h + stream_get_length s
           else h = 0 \<and> t' = t \<and> s' = s"
    and "fst (transport_read_pdu_bytes (data s')) \<le> stream_get_length s + h"
  shows "fst (transport_read_pdu_bytes (data s')) - (stream_get_length s + h) \<le> 0 \<and>
         transport_read_layer (t'\<lparr>stdout := stdout t' @ snd (transport_read_pdu_bytes (data s'))\<rparr>)
             s' (stream_get_length s + h)
             (fst (transport_read_pdu_bytes (data s')) - (stream_get_length s + h)) =
           Some (0, t'\<lparr>stdout := stdout t' @ snd (transport_read_pdu_bytes (data s'))\<rparr>, s') \<and>
         transport_read t s =
           Some (h, t'\<lparr>stdout := stdout t' @ snd (transport_read_pdu_bytes (data s'))\<rparr>, s') \<and>
         0 \<le> h"
proof (cases "stream_get_length s < 4")
  case True
  with assms show ?thesis
    by (simp add: transport_read_def Let_def transport_read_body_short read_layer_nonpos)
next
  case False
  with assms show ?thesis
    by (simp add: transport_read_def Let_def transport_read_body_short read_layer_nonpos)
qed


theorem transport_read_short_length_witness:
  "transport_read (transport_new (socket [Data [0x30, 0x83, 0x01, 0x00, 0xAA]] [])) (stream_new 16) =
   Some (4,
     transport_new (socket [Data [0x30, 0x83, 0x01, 0x00, 0xAA]] [])
       \<lparr>tcp := (socket [Data [0xAA]] [])\<lparr>rcalls := 1\<rparr>, stdout := [''Error reading TSRequest!'']\<rparr>,
     stream_store (stream_new 16) 0 [0x30, 0x83, 0x01, 0x00])"
  using transport_read_short_length [where s = "stream_new 16" and h = 4
      and t = "transport_new (socket [Data [0x30, 0x83, 0x01, 0x00, 0xAA]] [])"
      and t' = "transport_new (socket [Data [0x30, 0x83, 0x01, 0x00, 0xAA]] [])
                  \<lparr>tcp := (socket [Data [0xAA]] [])\<lparr>rcalls := 1\<rparr>\<rparr>"
      and s' = "stream_store (stream_new 16) 0 [0x30, 0x83, 0x01, 0x00]"]
  by (simp add: transport_read_layer_def transport_read_layer_loop.simps layer_read_def
      transport_new_def socket_def endpoint_read_def stream_new_def stream_store_def
      stream_get_length_def transport_read_pdu_bytes_def)

section \<open>Non-blocking dispatch of a stream of PDUs\<close>






section \<open>The wait cases of transport_check_fds\<close>

text \<open>
  C3 at its boundary cases. A header-only TPKT \<open>03 00 00 04\<close> is a complete PDU of
  declared length 4. With exactly these 4 bytes buffered \<open>transport_check_fds\<close>
  returns 0 and does not dispatch (the guard is \<open>pos <= 4\<close>), and it never will: 21
  invocations dispatch nothing, and from the second one on the transport does not
  change any more. The 2-byte Fast-Path PDU \<open>00 02\<close>, with exactly its 2 bytes
  buffered, is not dispatched either (the guard is \<open>pos <= 2\<close>).
\<close>

theorem transport_check_fds_header_only_stalls:
  "map_option snd
     (transport_check_fds_seq idle_callback
        ((transport_new (socket [Data [0x03, 0x00, 0x00, 0x04]] []))\<lparr>blocking := False\<rparr>)
        (Suc (Suc 19))) = Some [] \<and>
   map_option (\<lambda>(st, t, calls). (st, stream_slice (recv_buffer t) 0 (pos (recv_buffer t)), calls))
     (transport_check_fds idle_callback
        ((transport_new (socket [Data [0x03, 0x00, 0x00, 0x04]] []))\<lparr>blocking := False\<rparr>)) =
     Some (0, [0x03, 0x00, 0x00, 0x04], []) \<and>
   map_option (\<lambda>(st, t, calls). (st, stream_slice (recv_buffer t) 0 (pos (recv_buffer t)), calls))
     (transport_check_fds idle_callback
        ((transport_new (socket [Data [0x00, 0x02]] []))\<lparr>blocking := False\<rparr>)) =
     Some (0, [0x00, 0x02], [])"
proof (intro conjI)
  let ?t = "(transport_new (socket [Data [0x03, 0x00, 0x00, 0x04]] []))\<lparr>blocking := False\<rparr>"
  have "\<exists>t1 t2. transport_check_fds idle_callback ?t = Some (0, t1, []) \<and>
          transport_check_fds idle_callback t1 = Some (0, t2, []) \<and>
          transport_check_fds idle_callback t2 = Some (0, t2, [])"
    by (simp add: transport_eval)
  then obtain t1 t2 where s1: "transport_check_fds idle_callback ?t = Some (0, t1, [])"
    and s2: "transport_check_fds idle_callback t1 = Some (0, t2, [])"
    and fx: "transport_check_fds idle_callback t2 = Some (0, t2, [])"
    by blast
  note a = check_fds_seq_Suc [OF s2 check_fds_seq_stuck [OF fx, of 19]]
  note b = check_fds_seq_Suc [OF s1 a]
  show "map_option snd (transport_check_fds_seq idle_callback ?t (Suc (Suc 19))) = Some []"
    unfolding b by simp
qed (simp_all add: transport_eval)


end
